theory Spec2Isabelle
  imports Main "HOL-Library.Sublist"
begin

section \<open>Python string operations used by the script\<close>

text \<open>
  A Python \<open>str\<close> is modelled as a \<open>string\<close>; a character is a code point below 256.
  \<open>str_join sep xs\<close> is \<open>sep.join(xs)\<close>.
\<close>

fun str_join :: "string \<Rightarrow> string list \<Rightarrow> string" where
  "str_join sep [] = []"
| "str_join sep [x] = x"
| "str_join sep (x # y # ys) = x @ sep @ str_join sep (y # ys)"

text \<open>
  \<open>str_split sep s\<close> is \<open>s.split(sep)\<close>: the text is scanned from the left and cut at
  every occurrence of the separator that does not overlap an earlier cut. Python raises
  \<open>ValueError\<close> for an empty separator; the script only splits on \<open>","\<close> and \<open>", "\<close>.
\<close>

function str_split :: "string \<Rightarrow> string \<Rightarrow> string list" where
  "str_split sep [] = [[]]"
| "str_split sep (c # cs) =
     (if sep \<noteq> [] \<and> prefix sep (c # cs)
      then [] # str_split sep (drop (length sep) (c # cs))
      else (case str_split sep cs of
              [] \<Rightarrow> [[c]]
            | piece # pieces \<Rightarrow> (c # piece) # pieces))"
  by pat_completeness auto
termination
  by (relation "measure (\<lambda>(sep, s). length s)") (auto simp: neq_Nil_conv)

text \<open>
  \<open>str.isspace\<close> on the code points below 256, and \<open>s.strip()\<close>, which removes leading
  and trailing whitespace.
\<close>

definition isspace :: "char \<Rightarrow> bool" where
  "isspace c = (of_char c \<in> set [9, 10, 11, 12, 13, 28, 29, 30, 31, 32, 133, 160 :: nat])"

definition str_strip :: "string \<Rightarrow> string" where
  "str_strip s = rev (dropWhile isspace (rev (dropWhile isspace s)))"

section \<open>Tables\<close>

text \<open>
  A cell of a data frame is a value or null (\<open>NaN\<close>, here \<open>None\<close>); a row maps the
  frame's column names to cells. Indexing a row with a column it does not have raises
  \<open>KeyError\<close>; calling a method on \<open>None\<close> raises \<open>AttributeError\<close>.
\<close>

type_synonym 'v cell = "'v option"
type_synonym 'v row = "string \<rightharpoonup> 'v cell"

datatype error = KeyError | AttributeError

text \<open>
  \<open>[row[col] for col in cols if pd.notnull(row[col])]\<close> (lines 102 and 103); the same
  values are what \<open>df[cols]\<close> followed by \<open>row.dropna()\<close> leaves of a row (line 40).
\<close>

fun selected_values :: "'v row \<Rightarrow> string list \<Rightarrow> error + 'v list" where
  "selected_values row [] = Inr []"
| "selected_values row (col # cols) =
     (case row col of
        None \<Rightarrow> Inl KeyError
      | Some cell \<Rightarrow>
          (case selected_values row cols of
             Inl e \<Rightarrow> Inl e
           | Inr vs \<Rightarrow> Inr (case cell of None \<Rightarrow> vs | Some v \<Rightarrow> v # vs)))"

section \<open>Building the keyword processor and the product map (lines 98 to 106)\<close>

text \<open>
  The state of the loop: the keywords handed to \<open>keyword_processor.add_keyword\<close>, in call
  order, and the dictionary \<open>product_map\<close>. Keyword and product columns hold text.
\<close>

record mapping_state =
  keyword_processor :: "string list"
  product_map :: "string \<rightharpoonup> string"

definition new_state :: mapping_state where
  "new_state = \<lparr>keyword_processor = [], product_map = Map.empty\<rparr>"

text \<open>\<open>", ".join(products) if products else "-"\<close> (line 106).\<close>

definition products_field :: "string list \<Rightarrow> string" where
  "products_field products = (if products \<noteq> [] then str_join '', '' products else ''-'')"

text \<open>The body of the inner loop (lines 105 and 106).\<close>

definition register :: "string list \<Rightarrow> string \<Rightarrow> mapping_state \<Rightarrow> mapping_state" where
  "register products keyword st =
     st\<lparr>keyword_processor := keyword_processor st @ [keyword],
        product_map := (product_map st)(keyword \<mapsto> products_field products)\<rparr>"

text \<open>One iteration of the outer loop (lines 102 to 106).\<close>

definition register_row ::
  "string list \<Rightarrow> string list \<Rightarrow> string row \<Rightarrow> mapping_state \<Rightarrow> error + mapping_state" where
  "register_row key_columns prod_columns row st =
     (case selected_values row key_columns of
        Inl e \<Rightarrow> Inl e
      | Inr keywords \<Rightarrow>
          (case selected_values row prod_columns of
             Inl e \<Rightarrow> Inl e
           | Inr products \<Rightarrow> Inr (fold (register products) keywords st)))"

text \<open>The loop over \<open>key_data.iterrows()\<close> (line 101).\<close>

fun build_index ::
  "string list \<Rightarrow> string list \<Rightarrow> string row list \<Rightarrow> mapping_state \<Rightarrow> error + mapping_state" where
  "build_index key_columns prod_columns [] st = Inr st"
| "build_index key_columns prod_columns (row # rows) st =
     (case register_row key_columns prod_columns row st of
        Inl e \<Rightarrow> Inl e
      | Inr st' \<Rightarrow> build_index key_columns prod_columns rows st')"

text \<open>
  Manual keyword entry (lines 87 to 89): the frame has the single column \<open>Keywords\<close>,
  one row per token that is not empty after stripping; \<open>prod_columns\<close> stays empty.
\<close>

definition manual_key_data :: "string \<Rightarrow> string row list" where
  "manual_key_data manual_keywords =
     map (\<lambda>kw. [''Keywords'' \<mapsto> Some (str_strip kw)])
       (filter (\<lambda>kw. str_strip kw \<noteq> []) (str_split '','' manual_keywords))"

section \<open>Matching the descriptions (lines 108 to 119)\<close>

text \<open>
  The matching itself is done by \<open>KeywordProcessor.extract_keywords\<close> of a third-party
  library whose code is not part of the repository. It is a parameter \<open>flash\<close> of the
  model: a function of the keywords added so far and of the sentence, returning the list
  of keywords found. The order in which Python iterates over a \<open>set\<close> is not fixed by
  the language either; it is the parameter \<open>set_iter\<close>, which maps the sequence of
  values put into a set to the sequence \<open>list(set(...))\<close> and \<open>join\<close> read out of it.
  \<open>set_order\<close> says that such a function behaves as a set: nothing is repeated, nothing
  is lost and nothing is added.
\<close>

definition set_order :: "(string list \<Rightarrow> string list) \<Rightarrow> bool" where
  "set_order set_iter = (\<forall>xs. distinct (set_iter xs) \<and> set (set_iter xs) = set xs)"

text \<open>\<open>d.get(k, dflt)\<close>.\<close>

definition dict_get :: "('k \<rightharpoonup> 'v) \<Rightarrow> 'k \<Rightarrow> 'v \<Rightarrow> 'v" where
  "dict_get d k dflt = (case d k of None \<Rightarrow> dflt | Some v \<Rightarrow> v)"

text \<open>The local function \<open>extract_keywords\<close> (lines 111 to 113).\<close>

definition extract_keywords ::
  "(string list \<Rightarrow> string \<Rightarrow> string list) \<Rightarrow> (string list \<Rightarrow> string list) \<Rightarrow>
   string list \<Rightarrow> string \<Rightarrow> string" where
  "extract_keywords flash set_iter kp description =
     (let matched_keywords = set_iter (flash kp description)
      in if matched_keywords \<noteq> [] then str_join '', '' matched_keywords else ''-'')"

text \<open>
  The generator \<open>product_map.get(k, "-") for k in x.split(", ") if k\<close> of line 118, and
  the whole lambda of lines 117 to 119.
\<close>

definition resolved_products :: "(string \<rightharpoonup> string) \<Rightarrow> string \<Rightarrow> string list" where
  "resolved_products pm x =
     map (\<lambda>k. dict_get pm k ''-'') (filter (\<lambda>k. k \<noteq> []) (str_split '', '' x))"

definition mapped_product ::
  "(string list \<Rightarrow> string list) \<Rightarrow> (string \<rightharpoonup> string) \<Rightarrow> string \<Rightarrow> string" where
  "mapped_product set_iter pm x =
     (if x \<noteq> ''-'' then str_join '', '' (set_iter (resolved_products pm x)) else ''-'')"

text \<open>The two new columns of one description row: \<open>Mapped_Keyword\<close> and \<open>Mapped_Product\<close>.\<close>

definition map_record ::
  "(string list \<Rightarrow> string \<Rightarrow> string list) \<Rightarrow> (string list \<Rightarrow> string list) \<Rightarrow>
   mapping_state \<Rightarrow> string \<Rightarrow> string \<times> string" where
  "map_record flash set_iter st description =
     (let mapped_keyword = extract_keywords flash set_iter (keyword_processor st) description
      in (mapped_keyword, mapped_product set_iter (product_map st) mapped_keyword))"

text \<open>
  Modelled from the spec: the keyword matcher, which the repository takes from a library
  and does not contain. Section 4.1 of the specification describes \<open>add\<close> as skipping an
  empty keyword and \<open>extract\<close> as returning the registered keywords that occur as
  substrings of the text. It serves as a concrete instance of \<open>flash\<close> in examples.
\<close>

definition spec_extract :: "string list \<Rightarrow> string \<Rightarrow> string list" where
  "spec_extract kp description = filter (\<lambda>k. k \<noteq> [] \<and> sublist k description) kp"

text \<open>
  What the specification calls the product list of a keyword: the non-null product
  values of the last row of the key table that lists the keyword.
\<close>

fun registered_products ::
  "string list \<Rightarrow> string list \<Rightarrow> string row list \<Rightarrow> string \<Rightarrow> string list option" where
  "registered_products key_columns prod_columns [] k = None"
| "registered_products key_columns prod_columns (row # rows) k =
     (case registered_products key_columns prod_columns rows k of
        Some products \<Rightarrow> Some products
      | None \<Rightarrow>
          (case (selected_values row key_columns, selected_values row prod_columns) of
             (Inr kws, Inr products) \<Rightarrow> if k \<in> set kws then Some products else None
           | _ \<Rightarrow> None))"

section \<open>Column concatenation (lines 39 and 40)\<close>

text \<open>\<open>fillna(d)\<close> on one cell.\<close>

definition fillna :: "'v \<Rightarrow> 'v cell \<Rightarrow> 'v cell" where
  "fillna d c = (case c of None \<Rightarrow> Some d | Some v \<Rightarrow> Some v)"

text \<open>
  The lambda applied to each row of \<open>df[columns]\<close>; \<open>astype_str\<close> is Python's \<open>str\<close> on
  the values of the frame (the identity on text).
\<close>

definition concatenate_row :: "('v \<Rightarrow> string) \<Rightarrow> string list \<Rightarrow> 'v row \<Rightarrow> error + string" where
  "concatenate_row astype_str columns row =
     (case selected_values row columns of
        Inl e \<Rightarrow> Inl e
      | Inr vs \<Rightarrow> Inr (str_join '' '' (map astype_str vs)))"

text \<open>\<open>apply(f, axis=1)\<close>: the function on every row; the first exception ends it.\<close>

fun apply_rows :: "('r \<Rightarrow> error + 'b) \<Rightarrow> 'r list \<Rightarrow> error + 'b list" where
  "apply_rows f [] = Inr []"
| "apply_rows f (row # rows) =
     (case f row of
        Inl e \<Rightarrow> Inl e
      | Inr y \<Rightarrow> (case apply_rows f rows of Inl e \<Rightarrow> Inl e | Inr ys \<Rightarrow> Inr (y # ys)))"

definition concatenate_columns ::
  "('v \<Rightarrow> string) \<Rightarrow> 'v row list \<Rightarrow> string list \<Rightarrow> error + string cell list" where
  "concatenate_columns astype_str df columns =
     (case apply_rows (concatenate_row astype_str columns) df of
        Inl e \<Rightarrow> Inl e
      | Inr joined \<Rightarrow> Inr (map (fillna ''-'') (map Some joined)))"

section \<open>Loading an upload (lines 26 to 37 and 58 to 86)\<close>

text \<open>
  The pandas readers are parameters: each returns a frame or raises, which is \<open>Inl\<close> of
  the exception's text. The only part of the page the model keeps is the list of
  messages shown with \<open>st.error\<close>. The decorator \<open>st.cache_data\<close> stores results and
  does not change what \<open>load_data\<close> returns. A name with none of the three endings takes
  no branch of the \<open>if\<close> chain and reaches \<open>return None\<close> without a message.
\<close>

record upload =
  name :: string
  content :: string

record pandas =
  read_csv :: "upload \<Rightarrow> string + string row list"
  read_excel :: "upload \<Rightarrow> string + string row list"
  read_json :: "upload \<Rightarrow> string + string row list"

definition fillna_frame :: "string \<Rightarrow> string row list \<Rightarrow> string row list" where
  "fillna_frame d df = map (\<lambda>row. map_option (fillna d) \<circ> row) df"

definition read_result ::
  "string + string row list \<Rightarrow> string list \<Rightarrow> string row list option \<times> string list" where
  "read_result r errors =
     (case r of
        Inl e \<Rightarrow> (None, errors @ [''Error reading file: '' @ e])
      | Inr df \<Rightarrow> (Some (fillna_frame ''-'' df), errors))"

definition load_data ::
  "pandas \<Rightarrow> upload \<Rightarrow> string list \<Rightarrow> string row list option \<times> string list" where
  "load_data pd file errors =
     (if suffix ''.csv'' (name file) then read_result (read_csv pd file) errors
      else if suffix ''.xlsx'' (name file) then read_result (read_excel pd file) errors
      else if suffix ''.json'' (name file) then read_result (read_json pd file) errors
      else (None, errors))"

text \<open>
  The description upload (lines 60 to 67): line 62 calls \<open>desc_dataset.head(1000)\<close>
  before line 64 tests \<open>desc_dataset is not None\<close>.
\<close>

definition desc_upload ::
  "pandas \<Rightarrow> upload \<Rightarrow> string list \<Rightarrow> string list \<Rightarrow> (error + string row list) \<times> string list" where
  "desc_upload pd file desc_columns errors =
     (case load_data pd file errors of
        (None, errors') \<Rightarrow> (Inl AttributeError, errors')
      | (Some desc_dataset, errors') \<Rightarrow>
          if desc_columns \<noteq> [] then
            (case concatenate_columns id desc_dataset desc_columns of
               Inl e \<Rightarrow> (Inl e, errors')
             | Inr joined \<Rightarrow>
                 (Inr (map2 (\<lambda>row c. row(''Concatenated_Description'' \<mapsto> c)) desc_dataset joined),
                  errors'))
          else (Inr desc_dataset, errors'))"

text \<open>The keyword upload (lines 79 to 81): the test for \<open>None\<close> comes first.\<close>

definition key_upload ::
  "pandas \<Rightarrow> upload \<Rightarrow> string list \<Rightarrow> (error + string row list option) \<times> string list" where
  "key_upload pd file errors =
     (case load_data pd file errors of
        (None, errors') \<Rightarrow> (Inr None, errors')
      | (Some key_data, errors') \<Rightarrow> (Inr (Some key_data), errors'))"

section \<open>Reference notions of the specification\<close>

text \<open>
  The composite product string of a keyword as the specification words it: its product
  list joined with \<open>", "\<close>, and \<open>"-"\<close> when the keyword has no list or an empty one.
\<close>

definition composite_products ::
  "string list \<Rightarrow> string list \<Rightarrow> string row list \<Rightarrow> string \<Rightarrow> string" where
  "composite_products key_columns prod_columns rows k =
     (case registered_products key_columns prod_columns rows k of
        None \<Rightarrow> ''-''
      | Some [] \<Rightarrow> ''-''
      | Some (p # ps) \<Rightarrow> str_join '', '' (p # ps))"

text \<open>
  Product resolution by iterating over the matched keywords themselves: one lookup per
  keyword, the results put into a set and joined.
\<close>

definition per_keyword_products ::
  "(string list \<Rightarrow> string list) \<Rightarrow> (string \<rightharpoonup> string) \<Rightarrow> string list \<Rightarrow> string" where
  "per_keyword_products set_iter pm matched =
     str_join '', '' (set_iter (map (\<lambda>k. dict_get pm k ''-'') matched))"

text \<open>The values a row has in the selected columns, nulls and missing columns left out.\<close>

definition present_values :: "'v row \<Rightarrow> string list \<Rightarrow> 'v list" where
  "present_values row columns =
     concat (map (\<lambda>c. case row c of Some (Some v) \<Rightarrow> [v] | _ \<Rightarrow> []) columns)"

section \<open>Lemmas about the string operations\<close>

lemma str_split_not_Nil: "str_split sep s \<noteq> []"
  by (cases s) (auto split: list.splits)

text \<open>
  The two characters of \<open>", "\<close> differ, so an occurrence of the separator never overlaps
  another one: splitting a text at a separator splits both sides independently.
\<close>

lemma split_comma_space_append:
  "str_split '', '' (a @ '', '' @ b) = str_split '', '' a @ str_split '', '' b"
proof (induction a rule: length_induct)
  case (1 a)
  show ?case
  proof (cases a)
    case Nil
    then show ?thesis by simp
  next
    case (Cons c cs)
    show ?thesis
    proof (cases "prefix '', '' a")
      case True
      then obtain rest where a: "a = '', '' @ rest" by (auto simp: prefix_def)
      have "length rest < length a" using a by simp
      with 1 have "str_split '', '' (rest @ '', '' @ b) = str_split '', '' rest @ str_split '', '' b"
        by blast
      then show ?thesis using a by simp
    next
      case False
      have np: "\<not> prefix '', '' (a @ '', '' @ b)"
        using False Cons by (cases cs) auto
      have ih: "str_split '', '' (cs @ '', '' @ b) = str_split '', '' cs @ str_split '', '' b"
        using 1 Cons by simp
      have ne: "str_split '', '' cs \<noteq> []" by (rule str_split_not_Nil)
      show ?thesis using False np ih ne Cons
        by (auto split: list.splits)
    qed
  qed
qed

lemma split_join_comma_space:
  "ks \<noteq> [] \<Longrightarrow> str_split '', '' (str_join '', '' ks) = concat (map (str_split '', '') ks)"
proof (induction "'', ''" ks rule: str_join.induct)
  case 1
  then show ?case by simp
next
  case (2 x)
  then show ?case by simp
next
  case (3 x y ys)
  then show ?case using split_comma_space_append [of x "str_join '', '' (y # ys)"] by simp
qed

lemma split_without_separator:
  "\<not> sublist '', '' k \<Longrightarrow> str_split '', '' k = [k]"
proof (induction k)
  case Nil
  then show ?case by simp
next
  case (Cons c cs)
  then have "\<not> prefix '', '' (c # cs)" and "\<not> sublist '', '' cs"
    by (auto simp: sublist_Cons_right)
  with Cons.IH show ?case by simp
qed

lemma concat_split_without_separator:
  "\<forall>k\<in>set ks. \<not> sublist '', '' k \<Longrightarrow> concat (map (str_split '', '') ks) = ks"
  by (induction ks) (auto simp: split_without_separator)

lemma join_eq_dash:
  "str_join '', '' ks = ''-'' \<longleftrightarrow> ks = [''-'']"
proof (cases ks)
  case Nil
  then show ?thesis by simp
next
  case (Cons x xs)
  show ?thesis
  proof (cases xs)
    case Nil
    with Cons show ?thesis by simp
  next
    case (Cons y ys)
    have "length (str_join '', '' (x # y # ys)) \<ge> 2" by simp
    then have "str_join '', '' (x # y # ys) \<noteq> ''-''" by auto
    with \<open>ks = x # xs\<close> Cons show ?thesis by simp
  qed
qed

section \<open>Lemmas about sets read out as lists\<close>

lemma set_order_Nil: "set_order set_iter \<Longrightarrow> set_iter [] = []"
  by (metis set_order_def set_empty)

lemma set_order_remdups: "set_order remdups"
  by (simp add: set_order_def)

lemma set_order_rev_remdups: "set_order (\<lambda>xs. rev (remdups xs))"
  by (simp add: set_order_def)

lemma distinct_singleton_set: "distinct m \<Longrightarrow> set m = {a} \<Longrightarrow> m = [a]"
proof (cases m)
  case Nil
  then show "set m = {a} \<Longrightarrow> m = [a]" by simp
next
  case (Cons x xs)
  assume d: "distinct m" and s: "set m = {a}"
  from s Cons have "x = a" and sub: "set xs \<subseteq> {a}" by auto
  from d Cons \<open>x = a\<close> have "a \<notin> set xs" by simp
  with sub have "xs = []" by (cases xs) auto
  with Cons \<open>x = a\<close> show "m = [a]" by simp
qed

section \<open>Lemmas about the loop that builds the product map\<close>

lemma product_map_fold_register:
  "product_map (fold (register products) kws st) k =
     (if k \<in> set kws then Some (products_field products) else product_map st k)"
  by (induction kws arbitrary: st) (auto simp: register_def)

lemma keyword_processor_fold_register:
  "keyword_processor (fold (register products) kws st) = keyword_processor st @ kws"
  by (induction kws arbitrary: st) (auto simp: register_def)

lemma build_index_append:
  "build_index kc pc (rs1 @ rs2) st =
     (case build_index kc pc rs1 st of Inl e \<Rightarrow> Inl e | Inr st' \<Rightarrow> build_index kc pc rs2 st')"
  by (induction rs1 arbitrary: st) (auto split: sum.splits)

lemma build_index_unregistered:
  assumes "build_index kc pc rows st = Inr st'"
    and "\<forall>r\<in>set rows. \<forall>ks. selected_values r kc = Inr ks \<longrightarrow> k \<notin> set ks"
  shows "product_map st' k = product_map st k"
  using assms
proof (induction rows arbitrary: st)
  case Nil
  then show ?case by simp
next
  case (Cons r rows)
  then show ?case
    by (auto simp: register_row_def product_map_fold_register split: sum.splits)
qed

lemma build_index_product_map:
  "build_index kc pc rows st0 = Inr st \<Longrightarrow>
     product_map st k =
       (case registered_products kc pc rows k of
          None \<Rightarrow> product_map st0 k
        | Some products \<Rightarrow> Some (products_field products))"
proof (induction rows arbitrary: st0)
  case Nil
  then show ?case by simp
next
  case (Cons r rows)
  then show ?case
    by (auto simp: register_row_def product_map_fold_register split: sum.splits option.splits)
qed

lemma dict_get_built:
  "build_index kc pc rows new_state = Inr st \<Longrightarrow>
     dict_get (product_map st) k ''-'' = composite_products kc pc rows k"
  by (auto simp: dict_get_def composite_products_def products_field_def new_state_def
      dest!: build_index_product_map [where k = k] split: option.splits list.splits)

lemma build_index_manual:
  "build_index [''Keywords''] [] (map (\<lambda>kw. [''Keywords'' \<mapsto> Some (f kw)]) toks) st =
     Inr (fold (\<lambda>kw. register [] (f kw)) toks st)"
  by (induction toks arbitrary: st) (simp_all add: register_row_def)

lemma product_map_fold_manual:
  "product_map (fold (\<lambda>kw. register [] (f kw)) toks st) k =
     (if k \<in> f ` set toks then Some ''-'' else product_map st k)"
  by (induction toks arbitrary: st) (auto simp: register_def products_field_def)

lemma keyword_processor_fold_manual:
  "keyword_processor (fold (\<lambda>kw. register [] (f kw)) toks st) = keyword_processor st @ map f toks"
  by (induction toks arbitrary: st) (auto simp: register_def)

section \<open>Lemmas about matching and product resolution\<close>

lemma extract_keywords_unfold:
  "extract_keywords flash set_iter kp d =
     (if set_iter (flash kp d) \<noteq> [] then str_join '', '' (set_iter (flash kp d)) else ''-'')"
  by (simp add: extract_keywords_def Let_def)

lemma resolved_products_join:
  "ks \<noteq> [] \<Longrightarrow> resolved_products pm (str_join '', '' ks) =
     map (\<lambda>k. dict_get pm k ''-'') (filter (\<lambda>k. k \<noteq> []) (concat (map (str_split '', '') ks)))"
  by (simp add: resolved_products_def split_join_comma_space)

lemma resolved_products_clean:
  assumes "ks \<noteq> []" and "\<forall>k\<in>set ks. k \<noteq> [] \<and> \<not> sublist '', '' k"
  shows "resolved_products pm (str_join '', '' ks) = map (\<lambda>k. dict_get pm k ''-'') ks"
proof -
  from assms(2) have "concat (map (str_split '', '') ks) = ks"
    by (simp add: concat_split_without_separator)
  moreover from assms(2) have "filter (\<lambda>k. k \<noteq> []) ks = ks"
    by (simp add: filter_id_conv)
  ultimately show ?thesis using assms(1) by (simp add: resolved_products_join)
qed

lemma set_split_join:
  assumes "set xs = set ys" and "xs \<noteq> []"
  shows "set (str_split '', '' (str_join '', '' xs)) = set (str_split '', '' (str_join '', '' ys))"
proof -
  from assms have "ys \<noteq> []" by auto
  with assms show ?thesis by (simp add: split_join_comma_space)
qed

lemma set_resolved_join:
  assumes "set xs = set ys" and "xs \<noteq> []"
  shows "set (resolved_products pm (str_join '', '' xs)) = set (resolved_products pm (str_join '', '' ys))"
proof -
  from assms have "ys \<noteq> []" by auto
  with assms show ?thesis by (simp add: resolved_products_join)
qed

section \<open>Lemmas about column concatenation\<close>

lemma selected_values_present:
  "set columns \<subseteq> dom row \<Longrightarrow> selected_values row columns = Inr (present_values row columns)"
  by (induction columns) (auto simp: present_values_def split: option.splits)

lemma apply_rows_total:
  "\<forall>row\<in>set df. f row = Inr (g row) \<Longrightarrow> apply_rows f df = Inr (map g df)"
  by (induction df) auto

lemma present_values_all_null:
  "\<forall>c\<in>set columns. row c = Some None \<Longrightarrow> present_values row columns = []"
  by (induction columns) (auto simp: present_values_def)

section \<open>The matcher of the specification on example texts\<close>

lemma spec_extract_milk_bread:
  "spec_extract [''milk'', ''bread''] ''I bought milk and bread'' = [''milk'', ''bread'']"
  by (simp add: spec_extract_def sublist_Cons_right)

lemma spec_extract_two:
  "spec_extract [''milk'', ''bread''] ''milk bread'' = [''milk'', ''bread'']"
  by (simp add: spec_extract_def sublist_Cons_right)

lemma spec_extract_three:
  "spec_extract [''milk'', ''cream'', ''bread''] ''milk cream bread'' = [''milk'', ''cream'', ''bread'']"
  by (simp add: spec_extract_def sublist_Cons_right)

lemma spec_extract_none: "spec_extract [''milk'', ''bread''] ''green tea'' = []"
  by (simp add: spec_extract_def sublist_Cons_right)

lemma spec_extract_fragment: "spec_extract [''a, b''] ''a, b'' = [''a, b'']"
  by (simp add: spec_extract_def)

lemma spec_extract_dash: "spec_extract [''-''] ''-'' = [''-'']"
  by (simp add: spec_extract_def)

lemma not_sublist_milk: "\<not> sublist '', '' ''milk''"
  by (simp add: sublist_Cons_right)

lemma not_sublist_bread: "\<not> sublist '', '' ''bread''"
  by (simp add: sublist_Cons_right)

section \<open>Composite product strings\<close>

text \<open>
  C3, as amended. For a record whose matched keywords are non-empty strings without
  \<open>", "\<close> inside, and are not the single keyword \<open>"-"\<close>, the \<open>Mapped_Product\<close> field is
  the join of a duplicate-free list whose elements are exactly the composite product
  strings of the matched keywords: for each keyword the product list of its last row in
  the key table joined with \<open>", "\<close>, or \<open>"-"\<close> when the list is absent or empty. The
  composite strings are deduplicated as whole strings.
\<close>

theorem composite_product_set:
  assumes "set_order set_iter"
    and "build_index kc pc rows new_state = Inr st"
    and "matched = set_iter (flash (keyword_processor st) description)"
    and "matched \<noteq> []" and "matched \<noteq> [''-'']"
    and "\<forall>k\<in>set matched. k \<noteq> [] \<and> \<not> sublist '', '' k"
  shows "\<exists>ps. snd (map_record flash set_iter st description) = str_join '', '' ps \<and>
           distinct ps \<and> set ps = composite_products kc pc rows ` set matched"
proof -
  define ps where "ps = set_iter (map (\<lambda>k. dict_get (product_map st) k ''-'') matched)"
  have x: "extract_keywords flash set_iter (keyword_processor st) description = str_join '', '' matched"
    using assms(3,4) by (simp add: extract_keywords_unfold)
  have "resolved_products (product_map st) (str_join '', '' matched) =
      map (\<lambda>k. dict_get (product_map st) k ''-'') matched"
    using assms(4,6) by (rule resolved_products_clean)
  then have "snd (map_record flash set_iter st description) = str_join '', '' ps"
    using assms(5) by (simp add: map_record_def Let_def x mapped_product_def join_eq_dash ps_def)
  moreover have "distinct ps"
    using assms(1) by (simp add: ps_def set_order_def)
  moreover have "set ps = composite_products kc pc rows ` set matched"
    using assms(1) dict_get_built [OF assms(2)] by (simp add: ps_def set_order_def image_def)
  ultimately show ?thesis by blast
qed

text \<open>
  The keywords \<open>milk\<close> and \<open>cream\<close> share the product \<open>Dairy\<close>, yet \<open>"Dairy, Drinks"\<close> and
  \<open>"Dairy"\<close> are two elements of the result; \<open>bread\<close> has no product and contributes \<open>"-"\<close>.
\<close>

theorem composite_product_set_witness:
  "build_index [''Keyword''] [''P1'', ''P2'']
     [[''Keyword'' \<mapsto> Some ''milk'', ''P1'' \<mapsto> Some ''Dairy'', ''P2'' \<mapsto> Some ''Drinks''],
      [''Keyword'' \<mapsto> Some ''cream'', ''P1'' \<mapsto> Some ''Dairy'', ''P2'' \<mapsto> None],
      [''Keyword'' \<mapsto> Some ''bread'', ''P1'' \<mapsto> None, ''P2'' \<mapsto> None]] new_state =
     Inr \<lparr>keyword_processor = [''milk'', ''cream'', ''bread''],
          product_map = [''milk'' \<mapsto> ''Dairy, Drinks'', ''cream'' \<mapsto> ''Dairy'', ''bread'' \<mapsto> ''-'']\<rparr> \<and>
   remdups (spec_extract [''milk'', ''cream'', ''bread''] ''milk cream bread'') =
     [''milk'', ''cream'', ''bread''] \<and>
   (\<exists>ps. snd (map_record spec_extract remdups
            \<lparr>keyword_processor = [''milk'', ''cream'', ''bread''],
             product_map = [''milk'' \<mapsto> ''Dairy, Drinks'', ''cream'' \<mapsto> ''Dairy'', ''bread'' \<mapsto> ''-'']\<rparr>
            ''milk cream bread'') = str_join '', '' ps \<and>
        distinct ps \<and> set ps = {''Dairy, Drinks'', ''Dairy'', ''-''})"
proof -
  let ?rows = "[[''Keyword'' \<mapsto> Some ''milk'', ''P1'' \<mapsto> Some ''Dairy'', ''P2'' \<mapsto> Some ''Drinks''],
                [''Keyword'' \<mapsto> Some ''cream'', ''P1'' \<mapsto> Some ''Dairy'', ''P2'' \<mapsto> None],
                [''Keyword'' \<mapsto> Some ''bread'', ''P1'' \<mapsto> None, ''P2'' \<mapsto> None]]"
  let ?st = "\<lparr>keyword_processor = [''milk'', ''cream'', ''bread''],
             product_map = [''milk'' \<mapsto> ''Dairy, Drinks'', ''cream'' \<mapsto> ''Dairy'', ''bread'' \<mapsto> ''-'']\<rparr>"
  have b: "build_index [''Keyword''] [''P1'', ''P2''] ?rows new_state = Inr ?st"
    by (simp add: register_row_def register_def new_state_def products_field_def)
  have m: "[''milk'', ''cream'', ''bread''] =
      remdups (spec_extract (keyword_processor ?st) ''milk cream bread'')"
    by (simp add: spec_extract_three)
  have m': "remdups (spec_extract [''milk'', ''cream'', ''bread''] ''milk cream bread'') =
      [''milk'', ''cream'', ''bread'']"
    by (simp add: spec_extract_three)
  have clean: "\<forall>k\<in>set [''milk'', ''cream'', ''bread'']. k \<noteq> [] \<and> \<not> sublist '', '' k"
    by (simp add: sublist_Cons_right)
  have c: "composite_products [''Keyword''] [''P1'', ''P2''] ?rows ` set [''milk'', ''cream'', ''bread'']
      = {''Dairy, Drinks'', ''Dairy'', ''-''}"
    by (simp add: composite_products_def)
  have "\<exists>ps. snd (map_record spec_extract remdups ?st ''milk cream bread'') = str_join '', '' ps \<and>
      distinct ps \<and>
      set ps = composite_products [''Keyword''] [''P1'', ''P2''] ?rows ` set [''milk'', ''cream'', ''bread'']"
    using set_order_remdups b m clean
    by (intro composite_product_set [where set_iter = remdups and flash = spec_extract
          and kc = "[''Keyword'']" and pc = "[''P1'', ''P2'']" and rows = ?rows and st = ?st
          and description = "''milk cream bread''" and matched = "[''milk'', ''cream'', ''bread'']"])
      simp_all
  then have "\<exists>ps. snd (map_record spec_extract remdups ?st ''milk cream bread'') = str_join '', '' ps \<and>
      distinct ps \<and> set ps = {''Dairy, Drinks'', ''Dairy'', ''-''}"
    unfolding c .
  with b m' show ?thesis by blast
qed

text \<open>
  The claim as first stated fails for a keyword that contains \<open>", "\<close>: the keyword
  \<open>"a, b"\<close> with product \<open>P\<close> is matched, its composite string is \<open>P\<close>, and the field
  is \<open>"-"\<close>.
\<close>

theorem composite_product_set_counterexample:
  "build_index [''Keyword''] [''Product'']
     [[''Keyword'' \<mapsto> Some ''a, b'', ''Product'' \<mapsto> Some ''P'']] new_state =
     Inr \<lparr>keyword_processor = [''a, b''], product_map = [''a, b'' \<mapsto> ''P'']\<rparr> \<and>
   remdups (spec_extract [''a, b''] ''a, b'') = [''a, b''] \<and>
   composite_products [''Keyword''] [''Product'']
     [[''Keyword'' \<mapsto> Some ''a, b'', ''Product'' \<mapsto> Some ''P'']] ''a, b'' = ''P'' \<and>
   map_record spec_extract remdups
     \<lparr>keyword_processor = [''a, b''], product_map = [''a, b'' \<mapsto> ''P'']\<rparr> ''a, b'' =
     (''a, b'', ''-'')"
  by (simp add: register_row_def register_def new_state_def products_field_def
      spec_extract_fragment composite_products_def map_record_def extract_keywords_unfold
      mapped_product_def resolved_products_def dict_get_def)

section \<open>Overwriting a keyword\<close>

text \<open>
  C4. When a keyword is registered more than once, the product map holds the product
  string of its last registration: if row \<open>r\<close> of the key table lists keyword \<open>k\<close> and no
  later row does, then after the loop \<open>product_map[k]\<close> is the product string of \<open>r\<close>,
  whatever the earlier rows stored for \<open>k\<close>.
\<close>

theorem last_registration_wins:
  assumes "build_index kc pc (rs1 @ r # rs2) st0 = Inr st"
    and "selected_values r kc = Inr kws"
    and "selected_values r pc = Inr products"
    and "k \<in> set kws"
    and "\<forall>r'\<in>set rs2. \<forall>ks. selected_values r' kc = Inr ks \<longrightarrow> k \<notin> set ks"
  shows "product_map st k = Some (products_field products)"
proof -
  from assms(1) obtain st1 where st1: "build_index kc pc rs1 st0 = Inr st1"
    and rest: "build_index kc pc (r # rs2) st1 = Inr st"
    by (auto simp: build_index_append split: sum.splits)
  define st2 where "st2 = fold (register products) kws st1"
  from rest assms(2,3) have tail: "build_index kc pc rs2 st2 = Inr st"
    by (simp add: register_row_def st2_def)
  have "product_map st2 k = Some (products_field products)"
    using assms(4) by (simp add: st2_def product_map_fold_register)
  with build_index_unregistered [OF tail assms(5)] show ?thesis by simp
qed

text \<open>
  The keyword \<open>milk\<close> is registered with \<open>Dairy\<close> and then with \<open>Drinks\<close>: only
  \<open>Drinks\<close> stays.
\<close>

theorem last_registration_wins_witness:
  "build_index [''Keyword''] [''Product'']
     ([[''Keyword'' \<mapsto> Some ''milk'', ''Product'' \<mapsto> Some ''Dairy'']] @
      [''Keyword'' \<mapsto> Some ''milk'', ''Product'' \<mapsto> Some ''Drinks''] # []) new_state =
     Inr \<lparr>keyword_processor = [''milk'', ''milk''], product_map = [''milk'' \<mapsto> ''Drinks'']\<rparr> \<and>
   product_map \<lparr>keyword_processor = [''milk'', ''milk''], product_map = [''milk'' \<mapsto> ''Drinks'']\<rparr>
     ''milk'' = Some ''Drinks''"
proof -
  let ?r1 = "[''Keyword'' \<mapsto> Some ''milk'', ''Product'' \<mapsto> Some ''Dairy'']"
  let ?r2 = "[''Keyword'' \<mapsto> Some ''milk'', ''Product'' \<mapsto> Some ''Drinks'']"
  let ?st = "\<lparr>keyword_processor = [''milk'', ''milk''], product_map = [''milk'' \<mapsto> ''Drinks'']\<rparr>"
  have b: "build_index [''Keyword''] [''Product''] ([?r1] @ ?r2 # []) new_state = Inr ?st"
    by (simp add: register_row_def register_def new_state_def products_field_def)
  have k: "selected_values ?r2 [''Keyword''] = Inr [''milk'']" by simp
  have p: "selected_values ?r2 [''Product''] = Inr [''Drinks'']" by simp
  have "product_map ?st ''milk'' = Some (products_field [''Drinks''])"
    by (rule last_registration_wins [OF b k p]) simp_all
  with b show ?thesis by (simp add: products_field_def)
qed

section \<open>Records without a match\<close>

text \<open>
  C5. When the keyword processor finds no keyword in the text of a record, both
  \<open>Mapped_Keyword\<close> and \<open>Mapped_Product\<close> are \<open>"-"\<close>; the second conjunct holds for every
  product map \<open>pm\<close>, so no lookup takes part in the result.
\<close>

theorem no_match_dash:
  assumes "set_order set_iter"
    and "flash (keyword_processor st) description = []"
  shows "map_record flash set_iter st description = (''-'', ''-'') \<and>
         mapped_product set_iter pm
           (extract_keywords flash set_iter (keyword_processor st) description) = ''-''"
  using assms
  by (simp add: map_record_def Let_def extract_keywords_unfold mapped_product_def set_order_Nil)

theorem no_match_dash_witness:
  "spec_extract [''milk'', ''bread''] ''green tea'' = [] \<and>
   map_record spec_extract remdups
     \<lparr>keyword_processor = [''milk'', ''bread''],
      product_map = [''milk'' \<mapsto> ''Dairy'', ''bread'' \<mapsto> ''Bakery'']\<rparr> ''green tea'' = (''-'', ''-'')"
proof -
  let ?st = "\<lparr>keyword_processor = [''milk'', ''bread''],
      product_map = [''milk'' \<mapsto> ''Dairy'', ''bread'' \<mapsto> ''Bakery'']\<rparr>"
  have e: "spec_extract (keyword_processor ?st) ''green tea'' = []"
    by (simp add: spec_extract_none)
  have "map_record spec_extract remdups ?st ''green tea'' = (''-'', ''-'') \<and>
      mapped_product remdups Map.empty
        (extract_keywords spec_extract remdups (keyword_processor ?st) ''green tea'') = ''-''"
    using set_order_remdups e by (rule no_match_dash)
  then show ?thesis by (simp add: spec_extract_none)
qed

section \<open>Manual keyword entry\<close>

text \<open>
  C6. For a manually entered string the loop succeeds, and the keys of the product map, as
  well as the keywords added to the processor, are exactly the stripped tokens of the
  comma-separated string that are not empty (a repeated token gives one key). Every key
  is associated with \<open>"-"\<close>, which is also what a lookup resolves to.
\<close>

theorem manual_keywords_index:
  "\<exists>st. build_index [''Keywords''] [] (manual_key_data s) new_state = Inr st \<and>
        dom (product_map st) = str_strip ` set (str_split '','' s) - {[]} \<and>
        set (keyword_processor st) = str_strip ` set (str_split '','' s) - {[]} \<and>
        (\<forall>k\<in>dom (product_map st).
           product_map st k = Some ''-'' \<and> dict_get (product_map st) k ''-'' = ''-'')"
proof -
  define toks where "toks = filter (\<lambda>kw. str_strip kw \<noteq> []) (str_split '','' s)"
  define st where "st = fold (\<lambda>kw. register [] (str_strip kw)) toks new_state"
  have built: "build_index [''Keywords''] [] (manual_key_data s) new_state = Inr st"
    by (simp add: manual_key_data_def toks_def st_def build_index_manual)
  have toks: "str_strip ` set toks = str_strip ` set (str_split '','' s) - {[]}"
    by (auto simp: toks_def)
  have pm: "product_map st k = (if k \<in> str_strip ` set toks then Some ''-'' else None)" for k
    by (simp add: st_def product_map_fold_manual new_state_def)
  have "dom (product_map st) = str_strip ` set toks"
    by (auto simp: pm dom_def)
  moreover have "set (keyword_processor st) = str_strip ` set toks"
    by (simp add: st_def keyword_processor_fold_manual new_state_def)
  moreover have "\<forall>k\<in>dom (product_map st).
      product_map st k = Some ''-'' \<and> dict_get (product_map st) k ''-'' = ''-''"
    by (auto simp: pm dict_get_def split: if_splits)
  ultimately show ?thesis using built toks by auto
qed

text \<open>The entry \<open>"a, b, b, c"\<close> gives the keywords \<open>a\<close>, \<open>b\<close> and \<open>c\<close>.\<close>

theorem manual_keywords_index_witness:
  "\<exists>st. build_index [''Keywords''] [] (manual_key_data ''a, b, b, c'') new_state = Inr st \<and>
        dom (product_map st) = {''a'', ''b'', ''c''} \<and>
        set (keyword_processor st) = {''a'', ''b'', ''c''} \<and>
        product_map st ''a'' = Some ''-'' \<and> product_map st ''b'' = Some ''-'' \<and>
        product_map st ''c'' = Some ''-''"
proof -
  have toks: "str_strip ` set (str_split '','' ''a, b, b, c'') - {[]} = {''a'', ''b'', ''c''}"
    by (simp add: str_strip_def isspace_def) 
  from manual_keywords_index [of "''a, b, b, c''"] show ?thesis
    unfolding toks by fastforce
qed

section \<open>A file that cannot be read\<close>

text \<open>
  C7. The claim says that an upload which fails to parse shows a message, yields no data
  and leaves the session running. On the description upload the script does otherwise:
  for a file \<open>d.csv\<close> that \<open>read_csv\<close> rejects, \<open>load_data\<close> shows the message and returns
  \<open>None\<close>, and line 62 then raises \<open>AttributeError\<close>. The keyword upload, given the same
  file, goes on without data. A file whose name has none of the three endings, such as
  \<open>d.CSV\<close>, yields no data and no message.
\<close>

theorem desc_upload_crash:
  "desc_upload
     \<lparr>read_csv = (\<lambda>f. Inl ''No columns to parse from file''),
      read_excel = (\<lambda>f. Inr []), read_json = (\<lambda>f. Inr [])\<rparr>
     \<lparr>name = ''d.csv'', content = []\<rparr> [] [] =
     (Inl AttributeError, [''Error reading file: No columns to parse from file'']) \<and>
   key_upload
     \<lparr>read_csv = (\<lambda>f. Inl ''No columns to parse from file''),
      read_excel = (\<lambda>f. Inr []), read_json = (\<lambda>f. Inr [])\<rparr>
     \<lparr>name = ''d.csv'', content = []\<rparr> [] =
     (Inr None, [''Error reading file: No columns to parse from file'']) \<and>
   load_data
     \<lparr>read_csv = (\<lambda>f. Inr []), read_excel = (\<lambda>f. Inr []), read_json = (\<lambda>f. Inr [])\<rparr>
     \<lparr>name = ''d.CSV'', content = []\<rparr> [] = (None, [])"
  by (simp add: desc_upload_def key_upload_def load_data_def read_result_def suffix_def)

section \<open>Running the mapping twice\<close>

text \<open>
  C8. Two runs over the same record with the same keywords and product map may iterate
  their sets in different orders (\<open>set_iter\<close> and \<open>set_iter'\<close>); with one order the two
  runs compute the same function and return the same strings. In both cases the runs
  agree on the set of matched keywords (the set that is joined, and the set of pieces of
  the joined string), on whether the keyword field is \<open>"-"\<close>, on the set of product
  strings that are looked up, and on the set of pieces of the \<open>Mapped_Product\<close> field.
\<close>

theorem rerun_same_sets:
  assumes "set_order set_iter" and "set_order set_iter'"
    and "x = extract_keywords flash set_iter kp description"
    and "x' = extract_keywords flash set_iter' kp description"
  shows "set (set_iter (flash kp description)) = set (set_iter' (flash kp description)) \<and>
         set (str_split '', '' x) = set (str_split '', '' x') \<and>
         (x = ''-'' \<longleftrightarrow> x' = ''-'') \<and>
         set (resolved_products pm x) = set (resolved_products pm x') \<and>
         set (str_split '', '' (mapped_product set_iter pm x)) =
           set (str_split '', '' (mapped_product set_iter' pm x'))"
proof -
  define m1 where "m1 = set_iter (flash kp description)"
  define m2 where "m2 = set_iter' (flash kp description)"
  have same: "set m1 = set m2"
    using assms(1,2) by (simp add: m1_def m2_def set_order_def)
  show ?thesis
  proof (cases "m1 = []")
    case True
    with same have "m2 = []" by simp
    with True show ?thesis
      using assms(3,4) by (simp add: extract_keywords_unfold m1_def m2_def mapped_product_def)
  next
    case False
    with same have ne2: "m2 \<noteq> []" by auto
    have x: "x = str_join '', '' m1" and x': "x' = str_join '', '' m2"
      using False ne2 assms(3,4) by (simp_all add: extract_keywords_unfold m1_def m2_def)
    have d1: "distinct m1" and d2: "distinct m2"
      using assms(1,2) by (simp_all add: m1_def m2_def set_order_def)
    have dash: "x = ''-'' \<longleftrightarrow> x' = ''-''"
    proof
      assume "x = ''-''"
      then have "m1 = [''-'']" by (simp add: x join_eq_dash)
      with same d2 have "m2 = [''-'']"
        by (simp add: distinct_singleton_set)
      then show "x' = ''-''" by (simp add: x')
    next
      assume "x' = ''-''"
      then have "m2 = [''-'']" by (simp add: x' join_eq_dash)
      with same d1 have "m1 = [''-'']"
        by (simp add: distinct_singleton_set)
      then show "x = ''-''" by (simp add: x)
    qed
    have frag: "set (str_split '', '' x) = set (str_split '', '' x')"
      unfolding x x' using same False by (rule set_split_join)
    have res: "set (resolved_products pm x) = set (resolved_products pm x')"
      unfolding x x' using same False by (rule set_resolved_join)
    have out: "set (str_split '', '' (mapped_product set_iter pm x)) =
        set (str_split '', '' (mapped_product set_iter' pm x'))"
    proof (cases "x = ''-''")
      case True
      with dash show ?thesis by (simp add: mapped_product_def)
    next
      case nd: False
      define r1 where "r1 = set_iter (resolved_products pm x)"
      define r2 where "r2 = set_iter' (resolved_products pm x')"
      have rs: "set r1 = set r2"
        using assms(1,2) res by (simp add: r1_def r2_def set_order_def)
      have "set (str_split '', '' (str_join '', '' r1)) = set (str_split '', '' (str_join '', '' r2))"
      proof (cases "r1 = []")
        case True
        with rs have "r2 = []" by simp
        with True show ?thesis by simp
      next
        case False
        with rs show ?thesis by (rule set_split_join)
      qed
      with nd dash show ?thesis by (simp add: mapped_product_def r1_def r2_def)
    qed
    from same dash frag res out show ?thesis by (simp add: m1_def m2_def)
  qed
qed

theorem rerun_same_sets_witness:
  "extract_keywords spec_extract remdups [''milk'', ''bread''] ''milk bread'' = ''milk, bread'' \<and>
   extract_keywords spec_extract (\<lambda>xs. rev (remdups xs)) [''milk'', ''bread''] ''milk bread'' =
     ''bread, milk'' \<and>
   set (str_split '', '' ''milk, bread'') = set (str_split '', '' ''bread, milk'') \<and>
   set (resolved_products [''milk'' \<mapsto> ''Dairy''] ''milk, bread'') =
     set (resolved_products [''milk'' \<mapsto> ''Dairy''] ''bread, milk'') \<and>
   set (str_split '', '' (mapped_product remdups [''milk'' \<mapsto> ''Dairy''] ''milk, bread'')) =
     set (str_split '', '' (mapped_product (\<lambda>xs. rev (remdups xs)) [''milk'' \<mapsto> ''Dairy''] ''bread, milk''))"
proof -
  have x1: "''milk, bread'' = extract_keywords spec_extract remdups [''milk'', ''bread''] ''milk bread''"
    by (simp add: extract_keywords_unfold spec_extract_two)
  have x2: "''bread, milk'' =
      extract_keywords spec_extract (\<lambda>xs. rev (remdups xs)) [''milk'', ''bread''] ''milk bread''"
    by (simp add: extract_keywords_unfold spec_extract_two)
  have "set (remdups (spec_extract [''milk'', ''bread''] ''milk bread'')) =
        set (rev (remdups (spec_extract [''milk'', ''bread''] ''milk bread''))) \<and>
      set (str_split '', '' ''milk, bread'') = set (str_split '', '' ''bread, milk'') \<and>
      (''milk, bread'' = ''-'' \<longleftrightarrow> ''bread, milk'' = ''-'') \<and>
      set (resolved_products [''milk'' \<mapsto> ''Dairy''] ''milk, bread'') =
        set (resolved_products [''milk'' \<mapsto> ''Dairy''] ''bread, milk'') \<and>
      set (str_split '', '' (mapped_product remdups [''milk'' \<mapsto> ''Dairy''] ''milk, bread'')) =
        set (str_split '', ''
          (mapped_product (\<lambda>xs. rev (remdups xs)) [''milk'' \<mapsto> ''Dairy''] ''bread, milk''))"
    using set_order_remdups set_order_rev_remdups x1 x2
    by (rule rerun_same_sets [where set_iter = remdups and set_iter' = "\<lambda>xs. rev (remdups xs)"
          and flash = spec_extract and kp = "[''milk'', ''bread'']"
          and description = "''milk bread''"])
  with x1 x2 show ?thesis by metis
qed

section \<open>Concatenating the selected columns\<close>

text \<open>
  C9. When every row has the selected columns, \<open>concatenate_columns\<close> returns for each row
  the values of the selected columns that are not null, converted to strings and joined
  with one space; the final \<open>fillna("-")\<close> changes nothing. A row whose selected cells are
  all null gives the empty string.
\<close>

theorem concatenate_columns_spec:
  assumes "\<forall>row\<in>set df. set columns \<subseteq> dom row"
  shows "concatenate_columns astype_str df columns =
           Inr (map (\<lambda>row. Some (str_join '' '' (map astype_str (present_values row columns)))) df) \<and>
         (\<forall>row\<in>set df. (\<forall>c\<in>set columns. row c = Some None) \<longrightarrow>
            str_join '' '' (map astype_str (present_values row columns)) = [])"
proof -
  have "\<forall>row\<in>set df. concatenate_row astype_str columns row =
      Inr (str_join '' '' (map astype_str (present_values row columns)))"
    using assms by (simp add: concatenate_row_def selected_values_present)
  then have "apply_rows (concatenate_row astype_str columns) df =
      Inr (map (\<lambda>row. str_join '' '' (map astype_str (present_values row columns))) df)"
    by (rule apply_rows_total)
  then show ?thesis
    by (simp add: concatenate_columns_def fillna_def present_values_all_null comp_def)
qed

theorem concatenate_columns_spec_witness:
  "concatenate_columns (\<lambda>v. v)
     [[''a'' \<mapsto> Some ''x'', ''b'' \<mapsto> None, ''c'' \<mapsto> Some ''y''], [''a'' \<mapsto> None, ''b'' \<mapsto> None, ''c'' \<mapsto> None]]
     [''a'', ''b'', ''c''] = Inr [Some ''x y'', Some '''']"
proof -
  let ?r1 = "[''a'' \<mapsto> Some ''x'', ''b'' \<mapsto> None, ''c'' \<mapsto> Some ''y'']"
  let ?r2 = "[''a'' \<mapsto> None, ''b'' \<mapsto> None, ''c'' \<mapsto> (None :: string option)]"
  have h: "\<forall>row\<in>set [?r1, ?r2]. set [''a'', ''b'', ''c''] \<subseteq> dom row" by simp
  from concatenate_columns_spec [OF h, of "\<lambda>v. v"] show ?thesis
    by (simp add: present_values_def)
qed

section \<open>Product resolution through the joined keyword string\<close>

text \<open>
  C10, as amended. When the matched keywords are not empty and not the single keyword
  \<open>"-"\<close>, the \<open>Mapped_Product\<close> field is computed from the pieces of the joined keyword
  string: every keyword is split at \<open>", "\<close>, and each piece that is not empty is looked up
  on its own, a piece without an entry resolving to \<open>"-"\<close>. If moreover every matched
  keyword is a non-empty string without \<open>", "\<close> inside, the field equals the lookup
  keyword by keyword.
\<close>

theorem fragment_lookup:
  assumes "matched = set_iter (flash kp description)"
    and "matched \<noteq> []" and "matched \<noteq> [''-'']"
  shows "mapped_product set_iter pm (extract_keywords flash set_iter kp description) =
           str_join '', '' (set_iter (map (\<lambda>k. dict_get pm k ''-'')
             (filter (\<lambda>k. k \<noteq> []) (concat (map (str_split '', '') matched))))) \<and>
         ((\<forall>k\<in>set matched. k \<noteq> [] \<and> \<not> sublist '', '' k) \<longrightarrow>
           mapped_product set_iter pm (extract_keywords flash set_iter kp description) =
             per_keyword_products set_iter pm matched)"
proof -
  have x: "extract_keywords flash set_iter kp description = str_join '', '' matched"
    using assms(1,2) by (simp add: extract_keywords_unfold)
  have nd: "str_join '', '' matched \<noteq> ''-''"
    using assms(3) by (simp add: join_eq_dash)
  have first: "mapped_product set_iter pm (str_join '', '' matched) =
      str_join '', '' (set_iter (map (\<lambda>k. dict_get pm k ''-'')
        (filter (\<lambda>k. k \<noteq> []) (concat (map (str_split '', '') matched)))))"
    using nd assms(2) by (simp add: mapped_product_def resolved_products_join)
  have second: "mapped_product set_iter pm (str_join '', '' matched) =
      per_keyword_products set_iter pm matched"
    if clean: "\<forall>k\<in>set matched. k \<noteq> [] \<and> \<not> sublist '', '' k"
    using nd resolved_products_clean [OF assms(2) clean]
    by (simp add: mapped_product_def per_keyword_products_def)
  from first second show ?thesis by (simp add: x)
qed

text \<open>
  The first record has keywords without \<open>", "\<close>; in the second the keyword \<open>"a, b"\<close> is
  cut into \<open>a\<close> and \<open>b\<close>, which have no entry.
\<close>

theorem fragment_lookup_witness:
  "mapped_product remdups [''milk'' \<mapsto> ''Dairy'']
     (extract_keywords spec_extract remdups [''milk'', ''bread''] ''I bought milk and bread'') =
     per_keyword_products remdups [''milk'' \<mapsto> ''Dairy''] [''milk'', ''bread''] \<and>
   per_keyword_products remdups [''milk'' \<mapsto> ''Dairy''] [''milk'', ''bread''] = ''Dairy, -'' \<and>
   mapped_product remdups [''a, b'' \<mapsto> ''P'']
     (extract_keywords spec_extract remdups [''a, b''] ''a, b'') = ''-''"
proof -
  have clean: "\<forall>k\<in>set [''milk'', ''bread'']. k \<noteq> [] \<and> \<not> sublist '', '' k"
    by (simp add: not_sublist_milk not_sublist_bread)
  have "mapped_product remdups [''milk'' \<mapsto> ''Dairy'']
      (extract_keywords spec_extract remdups [''milk'', ''bread''] ''I bought milk and bread'') =
      str_join '', '' (remdups (map (\<lambda>k. dict_get [''milk'' \<mapsto> ''Dairy''] k ''-'')
        (filter (\<lambda>k. k \<noteq> []) (concat (map (str_split '', '') [''milk'', ''bread''])))))
    \<and> ((\<forall>k\<in>set [''milk'', ''bread'']. k \<noteq> [] \<and> \<not> sublist '', '' k) \<longrightarrow>
      mapped_product remdups [''milk'' \<mapsto> ''Dairy'']
        (extract_keywords spec_extract remdups [''milk'', ''bread''] ''I bought milk and bread'') =
      per_keyword_products remdups [''milk'' \<mapsto> ''Dairy''] [''milk'', ''bread''])"
    by (rule fragment_lookup) (simp_all add: spec_extract_milk_bread)
  with clean have a: "mapped_product remdups [''milk'' \<mapsto> ''Dairy'']
      (extract_keywords spec_extract remdups [''milk'', ''bread''] ''I bought milk and bread'') =
      per_keyword_products remdups [''milk'' \<mapsto> ''Dairy''] [''milk'', ''bread'']"
    by blast
  have "mapped_product remdups [''a, b'' \<mapsto> ''P'']
      (extract_keywords spec_extract remdups [''a, b''] ''a, b'') =
      str_join '', '' (remdups (map (\<lambda>k. dict_get [''a, b'' \<mapsto> ''P''] k ''-'')
        (filter (\<lambda>k. k \<noteq> []) (concat (map (str_split '', '') [''a, b''])))))
    \<and> ((\<forall>k\<in>set [''a, b'']. k \<noteq> [] \<and> \<not> sublist '', '' k) \<longrightarrow>
      mapped_product remdups [''a, b'' \<mapsto> ''P'']
        (extract_keywords spec_extract remdups [''a, b''] ''a, b'') =
      per_keyword_products remdups [''a, b'' \<mapsto> ''P''] [''a, b''])"
    by (rule fragment_lookup) (simp_all add: spec_extract_fragment)
  then have b: "mapped_product remdups [''a, b'' \<mapsto> ''P'']
      (extract_keywords spec_extract remdups [''a, b''] ''a, b'') = ''-''"
    by (simp add: dict_get_def)
  have c: "per_keyword_products remdups [''milk'' \<mapsto> ''Dairy''] [''milk'', ''bread''] = ''Dairy, -''"
    by (simp add: per_keyword_products_def dict_get_def)
  from a b c show ?thesis by simp
qed

text \<open>
  The claim as first stated fails for the keyword \<open>"-"\<close>, which has no \<open>", "\<close> inside: the
  joined keyword string is the marker for no match, so the field is \<open>"-"\<close> and not the
  product \<open>P\<close> of the keyword.
\<close>

theorem fragment_lookup_counterexample:
  "remdups (spec_extract [''-''] ''-'') = [''-''] \<and>
   \<not> sublist '', '' ''-'' \<and>
   mapped_product remdups [''-'' \<mapsto> ''P''] (extract_keywords spec_extract remdups [''-''] ''-'') = ''-'' \<and>
   per_keyword_products remdups [''-'' \<mapsto> ''P''] [''-''] = ''P''"
  by (simp add: spec_extract_dash extract_keywords_unfold mapped_product_def
      per_keyword_products_def dict_get_def sublist_Cons_right)

end
